theory Spec2Isabelle
  imports Main "HOL-Library.Sublist"
begin

section \<open>JavaScript strings and objects\<close>

text \<open>
  A JavaScript string is modelled as a \<^typ>\<open>string\<close> whose characters are the code units
  0 to 255 (ASCII and Latin-1). On these code units \<open>toLowerCase\<close> maps \<open>A\<close> to \<open>Z\<close> and the
  Latin-1 capitals (192 to 222, without the multiplication sign 215) to the letter 32 places
  further, and \<open>trim\<close> removes tab, line feed, vertical tab, form feed, carriage return, space
  and the no-break space (160) from both ends.
\<close>

definition toLowerCaseChar :: "char \<Rightarrow> char" where
  "toLowerCaseChar c =
     (let n = (of_char c :: nat)
      in if (65 \<le> n \<and> n \<le> 90) \<or> (192 \<le> n \<and> n \<le> 222 \<and> n \<noteq> 215)
         then char_of (n + 32) else c)"

definition toLowerCase :: "string \<Rightarrow> string" where
  "toLowerCase s = map toLowerCaseChar s"

definition isWhiteSpace :: "char \<Rightarrow> bool" where
  "isWhiteSpace c = ((of_char c :: nat) \<in> {9, 10, 11, 12, 13, 32, 160})"

definition trim :: "string \<Rightarrow> string" where
  "trim s = rev (dropWhile isWhiteSpace (rev (dropWhile isWhiteSpace s)))"

text \<open>\<open>hay.includes(q)\<close>: \<open>q\<close> occurs in \<open>hay\<close> as a contiguous run of characters.\<close>

fun startsWith :: "string \<Rightarrow> string \<Rightarrow> bool" where
  "startsWith hay [] = True"
| "startsWith [] (c # q) = False"
| "startsWith (h # hay) (c # q) = (h = c \<and> startsWith hay q)"

fun includesStr :: "string \<Rightarrow> string \<Rightarrow> bool" where
  "includesStr [] q = startsWith [] q"
| "includesStr (h # hay) q = (startsWith (h # hay) q \<or> includesStr hay q)"

text \<open>\<open>parts.join(' ')\<close>\<close>

fun join :: "string list \<Rightarrow> string" where
  "join [] = []"
| "join [p] = p"
| "join (p # r # ps) = p @ '' '' @ join (r # ps)"

text \<open>
  A plain object is a list of its own properties in the order of \<open>Object.entries\<close> (insertion
  order: no key of this program is an array index). Reading \<open>obj[key]\<close> finds an own property,
  or else a member inherited from \<open>Object.prototype\<close>, which is a function or an object and so
  truthy and never a string, or else \<open>undefined\<close>.
\<close>

datatype ProtoMember = ObjectConstructor | ObjectPrototype | ProtoFunction string

datatype 'v Property = Own 'v | Inherited ProtoMember | Undefined

definition protoMember :: "string \<Rightarrow> ProtoMember option" where
  "protoMember key =
     (if key = ''constructor'' then Some ObjectConstructor
      else if key = ''__proto__'' then Some ObjectPrototype
      else if key \<in> set [''__defineGetter__'', ''__defineSetter__'', ''hasOwnProperty'',
                          ''__lookupGetter__'', ''__lookupSetter__'', ''isPrototypeOf'',
                          ''propertyIsEnumerable'', ''toString'', ''valueOf'', ''toLocaleString'']
      then Some (ProtoFunction key)
      else None)"

definition objGet :: "(string \<times> 'v) list \<Rightarrow> string \<Rightarrow> 'v Property" where
  "objGet obj key =
     (case map_of obj key of
        Some v \<Rightarrow> Own v
      | None \<Rightarrow> (case protoMember key of Some m \<Rightarrow> Inherited m | None \<Rightarrow> Undefined))"

text \<open>
  A \<open>Map\<close> keeps its entries in insertion order; \<open>set\<close> on a key already there replaces the
  value in place.
\<close>

definition mapGet :: "('k \<times> 'v) list \<Rightarrow> 'k \<Rightarrow> 'v option" where
  "mapGet m k = map_of m k"

fun mapSet :: "('k \<times> 'v) list \<Rightarrow> 'k \<Rightarrow> 'v \<Rightarrow> ('k \<times> 'v) list" where
  "mapSet [] k v = [(k, v)]"
| "mapSet ((k', v') # m) k v = (if k' = k then (k, v) # m else (k', v') # mapSet m k v)"

section \<open>The data model (types.ts)\<close>

datatype SupportValue = Version string | Flag bool

record BrowserSupport =
  chrome :: "SupportValue option"
  edge :: "SupportValue option"
  firefox :: "SupportValue option"
  safari :: "SupportValue option"
  chrome_android :: "SupportValue option"
  firefox_android :: "SupportValue option"
  safari_ios :: "SupportValue option"

record BaselineStatus =
  high :: "string option"
  low :: "string option"

record FeatureStatus =
  experimental :: "bool option"
  standard_track :: "bool option"
  deprecated :: "bool option"

record FeatureData =
  name :: string
  description :: "string option"
  mdn_url :: "string option"
  spec_url :: "string option"
  baseline :: "BaselineStatus option"
  support :: BrowserSupport
  status :: "FeatureStatus option"

record BaselineFeature =
  bf_name :: string
  bf_year :: int
  bf_quarter :: "string option"
  bf_description :: "string option"
  bf_mdn_url :: "string option"

text \<open>
  \<open>yearDiff\<close> is a JavaScript number: \<open>None\<close> stands for \<open>NaN\<close>, which is what
  \<open>Math.abs(yearA - yearB)\<close> gives when a date did not parse.
\<close>

record BaselineDifference =
  yearDiff :: "int option"
  aFirst :: bool

record SupportRow =
  browser :: string
  aVersion :: string
  bVersion :: string

record ComparisonResult =
  featureA :: FeatureData
  featureB :: FeatureData
  baselineDifference :: "BaselineDifference option"
  supportDifference :: "SupportRow list"

section \<open>The comparison engine (mcp-server.ts, sse-server.ts: compareFeatures)\<close>

definition browsers :: "string list" where
  "browsers = [''chrome'', ''edge'', ''firefox'', ''safari'']"

text \<open>\<open>feature.support[browser]\<close> for a key of the interface \<open>BrowserSupport\<close>.\<close>

definition supportAt :: "BrowserSupport \<Rightarrow> string \<Rightarrow> SupportValue option" where
  "supportAt s b =
     (if b = ''chrome'' then chrome s
      else if b = ''edge'' then edge s
      else if b = ''firefox'' then firefox s
      else if b = ''safari'' then safari s
      else if b = ''chrome_android'' then chrome_android s
      else if b = ''firefox_android'' then firefox_android s
      else if b = ''safari_ios'' then safari_ios s
      else None)"

fun isString :: "SupportValue option \<Rightarrow> bool" where
  "isString (Some (Version v)) = True"
| "isString _ = False"

fun truthy :: "SupportValue option \<Rightarrow> bool" where
  "truthy None = False"
| "truthy (Some (Flag b)) = b"
| "truthy (Some (Version v)) = (v \<noteq> [])"

fun stringOf :: "SupportValue option \<Rightarrow> string" where
  "stringOf (Some (Version v)) = v"
| "stringOf _ = []"

text \<open>
  \<open>typeof aSupport === 'string' ? aSupport : aSupport ? 'supported' : 'not supported'\<close>
\<close>

definition versionLabel :: "SupportValue option \<Rightarrow> string" where
  "versionLabel v =
     (if isString v then stringOf v else if truthy v then ''supported'' else ''not supported'')"

text \<open>The loop \<open>for (const browser of browsers) supportDifference.push({...})\<close>.\<close>

fun pushRows :: "FeatureData \<Rightarrow> FeatureData \<Rightarrow> string list \<Rightarrow> SupportRow list \<Rightarrow> SupportRow list" where
  "pushRows a b [] rows = rows"
| "pushRows a b (br # brs) rows =
     pushRows a b brs
       (rows @ [\<lparr>browser = br,
                 aVersion = versionLabel (supportAt (support a) br),
                 bVersion = versionLabel (supportAt (support b) br)\<rparr>])"

text \<open>\<open>feature.baseline?.high\<close>\<close>

definition baselineHigh :: "FeatureData \<Rightarrow> string option" where
  "baselineHigh f = (case baseline f of None \<Rightarrow> None | Some bl \<Rightarrow> high bl)"

text \<open>
  \<open>Math.abs(yearA - yearB)\<close> and \<open>yearA < yearB\<close> on numbers that may be \<open>NaN\<close>: the
  difference of a \<open>NaN\<close> is \<open>NaN\<close> and every comparison with it is false.
\<close>

definition absDiff :: "int option \<Rightarrow> int option \<Rightarrow> int option" where
  "absDiff ya yb =
     (case ya of None \<Rightarrow> None
      | Some x \<Rightarrow> (case yb of None \<Rightarrow> None | Some y \<Rightarrow> Some \<bar>x - y\<bar>))"

definition numLess :: "int option \<Rightarrow> int option \<Rightarrow> bool" where
  "numLess ya yb =
     (case ya of None \<Rightarrow> False
      | Some x \<Rightarrow> (case yb of None \<Rightarrow> False | Some y \<Rightarrow> x < y))"

text \<open>
  The condition \<open>featureA.baseline?.high && featureB.baseline?.high\<close> asks for two truthy
  values: a string that is there and not empty. The parameter \<open>fullYear\<close> is the platform's
  \<open>new Date(s).getFullYear()\<close>: the year of the parsed date in the local time zone,
  \<open>None\<close> for \<open>NaN\<close> (an invalid date).
\<close>

definition baselineDiff ::
  "(string \<Rightarrow> int option) \<Rightarrow> FeatureData \<Rightarrow> FeatureData \<Rightarrow> BaselineDifference option" where
  "baselineDiff fullYear a b =
     (case baselineHigh a of
        None \<Rightarrow> None
      | Some ha \<Rightarrow>
          (case baselineHigh b of
             None \<Rightarrow> None
           | Some hb \<Rightarrow>
               if ha \<noteq> [] \<and> hb \<noteq> [] then
                 (let yearA = fullYear ha; yearB = fullYear hb
                  in Some \<lparr>yearDiff = absDiff yearA yearB, aFirst = numLess yearA yearB\<rparr>)
               else None))"

definition compareFeatures ::
  "(string \<Rightarrow> int option) \<Rightarrow> FeatureData \<Rightarrow> FeatureData \<Rightarrow> ComparisonResult" where
  "compareFeatures fullYear a b =
     \<lparr>featureA = a, featureB = b,
      baselineDifference = baselineDiff fullYear a b,
      supportDifference = pushRows a b browsers []\<rparr>"

section \<open>Dates\<close>

text \<open>
  The dates of the bundled records are in the date-only form \<open>YYYY-MM-DD\<close> of the
  ECMAScript date-time string format, which \<open>new Date\<close> reads as midnight UTC of that day.
  \<open>getFullYear\<close> then gives the year of that instant in local time: with the local offset
  (minutes east of UTC at that instant, less than a day either way) the local day is the
  same day when the offset is not negative and the day before when it is, so the year is
  one less exactly for a first of January west of UTC. A string that is not a valid date in
  this form (a date with a time, a day that the month does not have, any other text) is read
  by the rest of the format and by rules the language leaves to the engine: what the engine
  makes of it is a component of the platform, about which nothing is assumed.
\<close>

record Platform =
  offsetAt :: "nat \<times> nat \<times> nat \<Rightarrow> int"
  otherFormats :: "string \<Rightarrow> int option"

definition digitsVal :: "string \<Rightarrow> nat option" where
  "digitsVal s =
     (if s \<noteq> [] \<and> list_all (\<lambda>c. 48 \<le> (of_char c :: nat) \<and> (of_char c :: nat) \<le> 57) s
      then Some (foldl (\<lambda>n c. 10 * n + ((of_char c :: nat) - 48)) 0 s)
      else None)"

definition isLeapYear :: "nat \<Rightarrow> bool" where
  "isLeapYear y = (y mod 4 = 0 \<and> (y mod 100 \<noteq> 0 \<or> y mod 400 = 0))"

definition daysInMonth :: "nat \<Rightarrow> nat \<Rightarrow> nat" where
  "daysInMonth y m =
     (if m = 2 then (if isLeapYear y then 29 else 28)
      else if m = 4 \<or> m = 6 \<or> m = 9 \<or> m = 11 then 30 else 31)"

definition parseDateOnly :: "string \<Rightarrow> (nat \<times> nat \<times> nat) option" where
  "parseDateOnly s =
     (if length s = 10 \<and> s ! 4 = CHR ''-'' \<and> s ! 7 = CHR ''-'' then
        (case digitsVal (take 4 s) of
           None \<Rightarrow> None
         | Some y \<Rightarrow>
             (case digitsVal (take 2 (drop 5 s)) of
                None \<Rightarrow> None
              | Some m \<Rightarrow>
                  (case digitsVal (drop 8 s) of
                     None \<Rightarrow> None
                   | Some d \<Rightarrow>
                       if 1 \<le> m \<and> m \<le> 12 \<and> 1 \<le> d \<and> d \<le> daysInMonth y m
                       then Some (y, m, d) else None)))
      else None)"

definition getFullYear :: "Platform \<Rightarrow> string \<Rightarrow> int option" where
  "getFullYear platform s =
     (case parseDateOnly s of
        None \<Rightarrow> otherFormats platform s
      | Some (y, m, d) \<Rightarrow>
          Some (if offsetAt platform (y, m, d) < 0 \<and> m = 1 \<and> d = 1 then int y - 1 else int y))"

section \<open>The data store (data-loader.ts)\<close>

subsection \<open>The external dataset\<close>

text \<open>
  The values of the \<open>web-features\<close> exports have the type \<open>any\<close>. A feature of the external
  dataset is \<open>null\<close> or \<open>undefined\<close>, where reading a property throws a \<open>TypeError\<close>, or
  a falsy primitive (\<open>0\<close>, \<open>NaN\<close>, the empty string, \<open>false\<close>), where every property read
  gives \<open>undefined\<close>, or an object, of which the loader and the search read the properties
  below; each is taken at the type that \<open>FeatureData\<close> declares for the field it is copied
  to, and the flags of the status at their truth value. A truthy primitive reads like an
  object with none of the properties (\<open>emptyRaw\<close>) and is represented by it. The exports \<open>groups\<close>, \<open>browsers\<close> and \<open>snapshots\<close> are
  stored and handed out without being read.
\<close>

datatype Error = TypeError

datatype AnyRecord = AnyRecord nat

record RawStatus =
  rs_baseline :: "BaselineStatus option"
  rs_support :: "BrowserSupport option"
  rs_experimental :: bool
  rs_standard_track :: bool
  rs_deprecated :: bool

record RawFeature =
  raw_name :: "string option"
  raw_description :: "string option"
  raw_summary :: "string option"
  raw_mdn_url :: "string option"
  raw_spec :: "string option"
  raw_status :: "RawStatus option"
  raw_support :: "BrowserSupport option"
  raw_experimental :: bool
  raw_standard_track :: bool
  raw_deprecated :: bool
  raw_group :: "string option"
  raw_compat_features :: "string list option"

datatype RawValue = Nullish | FalsyPrimitive | Object RawFeature

definition emptyRaw :: RawFeature where
  "emptyRaw =
     \<lparr>raw_name = None, raw_description = None, raw_summary = None, raw_mdn_url = None,
      raw_spec = None, raw_status = None, raw_support = None, raw_experimental = False,
      raw_standard_track = False, raw_deprecated = False, raw_group = None,
      raw_compat_features = None\<rparr>"

text \<open>
  The result of \<open>await import('web-features').catch(() => null)\<close> is \<open>None\<close> when the
  package cannot be imported, and otherwise the module with its named exports and, when it
  has one, its default export.
\<close>

record Exports =
  ex_features :: "(string \<times> RawValue) list option"
  ex_groups :: "AnyRecord option"
  ex_browsers :: "AnyRecord option"
  ex_snapshots :: "AnyRecord option"

record Module = Exports +
  default_export :: "Exports option"

subsection \<open>The state of a DataLoader\<close>

record DataLoader =
  bcdCache :: "(string \<times> FeatureData) list"
  baselineCache :: "(int \<times> BaselineFeature list) list"
  lastUpdate :: int
  featuresMap :: "(string \<times> RawValue) list option"
  groupsExport :: "AnyRecord option"
  browsersExport :: "AnyRecord option"
  snapshotsExport :: "AnyRecord option"

definition CACHE_TTL :: int where
  "CACHE_TTL = 1000 * 60 * 60"

definition newDataLoader :: DataLoader where
  "newDataLoader =
     \<lparr>bcdCache = [], baselineCache = [], lastUpdate = 0, featuresMap = None,
      groupsExport = None, browsersExport = None, snapshotsExport = None\<rparr>"

subsection \<open>The bundled sample data\<close>

definition noSupport :: BrowserSupport where
  "noSupport =
     \<lparr>chrome = None, edge = None, firefox = None, safari = None,
      chrome_android = None, firefox_android = None, safari_ios = None\<rparr>"

definition noStatus :: FeatureStatus where
  "noStatus = \<lparr>experimental = None, standard_track = None, deprecated = None\<rparr>"

definition cssHasSelector :: FeatureData where
  "cssHasSelector =
     \<lparr>name = ''CSS :has() selector'',
      description = Some ''The :has() CSS pseudo-class represents an element if any of the selectors passed as parameters match at least one element.'',
      mdn_url = Some ''https://developer.mozilla.org/en-US/docs/Web/CSS/:has'',
      spec_url = None,
      baseline = Some \<lparr>high = Some ''2023-12-01'', low = Some ''2023-03-01''\<rparr>,
      support = noSupport\<lparr>chrome := Some (Version ''105''), edge := Some (Version ''105''),
                            firefox := Some (Version ''121''), safari := Some (Version ''15.4'')\<rparr>,
      status = Some (noStatus\<lparr>standard_track := Some True\<rparr>)\<rparr>"

definition offscreenCanvas :: FeatureData where
  "offscreenCanvas =
     \<lparr>name = ''OffscreenCanvas'',
      description = Some ''The OffscreenCanvas interface provides a canvas that can be rendered off screen.'',
      mdn_url = Some ''https://developer.mozilla.org/en-US/docs/Web/API/OffscreenCanvas'',
      spec_url = None,
      baseline = Some \<lparr>high = Some ''2022-03-01'', low = Some ''2021-09-01''\<rparr>,
      support = noSupport\<lparr>chrome := Some (Version ''69''), edge := Some (Version ''79''),
                            firefox := Some (Version ''105''), safari := Some (Version ''16.4'')\<rparr>,
      status = Some (noStatus\<lparr>standard_track := Some True\<rparr>)\<rparr>"

definition webusb :: FeatureData where
  "webusb =
     \<lparr>name = ''WebUSB API'',
      description = Some ''The WebUSB API provides a way to safely expose USB device services to the web.'',
      mdn_url = Some ''https://developer.mozilla.org/en-US/docs/Web/API/USB'',
      spec_url = None,
      baseline = None,
      support = noSupport\<lparr>chrome := Some (Version ''61''), edge := Some (Version ''79''),
                            firefox := Some (Flag False), safari := Some (Flag False)\<rparr>,
      status = Some (noStatus\<lparr>experimental := Some True\<rparr>)\<rparr>"

definition fetchStreaming :: FeatureData where
  "fetchStreaming =
     \<lparr>name = ''Fetch Streaming'',
      description = Some ''Streaming support for the Fetch API using ReadableStream.'',
      mdn_url = Some ''https://developer.mozilla.org/en-US/docs/Web/API/Fetch_API/Using_Fetch#processing_a_text_file_line_by_line'',
      spec_url = None,
      baseline = Some \<lparr>high = Some ''2022-07-01'', low = Some ''2020-01-01''\<rparr>,
      support = noSupport\<lparr>chrome := Some (Version ''43''), edge := Some (Version ''14''),
                            firefox := Some (Version ''65''), safari := Some (Version ''10.1'')\<rparr>,
      status = Some (noStatus\<lparr>standard_track := Some True\<rparr>)\<rparr>"

text \<open>\<open>Object.entries(this.getSampleBCDData())\<close>\<close>

definition getSampleBCDData :: "(string \<times> FeatureData) list" where
  "getSampleBCDData =
     [(''css-has-selector'', cssHasSelector),
      (''offscreen-canvas'', offscreenCanvas),
      (''webusb'', webusb),
      (''fetch-streaming'', fetchStreaming)]"

text \<open>
  \<open>Object.entries(this.getSampleBaselineData())\<close>: the keys of the literal are the numbers
  2024, 2023 and 2022, which an object lists as strings in ascending order.
\<close>

definition getSampleBaselineData :: "(string \<times> BaselineFeature list) list" where
  "getSampleBaselineData =
     [(''2022'',
        [\<lparr>bf_name = ''offscreen-canvas'', bf_year = 2022, bf_quarter = Some ''Q1'',
          bf_description = Some ''OffscreenCanvas API'', bf_mdn_url = None\<rparr>,
         \<lparr>bf_name = ''fetch-streaming'', bf_year = 2022, bf_quarter = Some ''Q3'',
          bf_description = Some ''Fetch API streaming support'', bf_mdn_url = None\<rparr>]),
      (''2023'',
        [\<lparr>bf_name = ''css-has-selector'', bf_year = 2023, bf_quarter = Some ''Q4'',
          bf_description = Some ''CSS :has() pseudo-class selector'', bf_mdn_url = None\<rparr>]),
      (''2024'',
        [\<lparr>bf_name = ''css-has-selector'', bf_year = 2024, bf_quarter = Some ''Q1'',
          bf_description = Some ''CSS :has() pseudo-class selector'', bf_mdn_url = None\<rparr>])]"

subsection \<open>loadBCDData\<close>

text \<open>\<open>a || b\<close> on strings that may be missing (the empty string is falsy), and on objects.\<close>

definition truthyStr :: "string option \<Rightarrow> bool" where
  "truthyStr a = (case a of None \<Rightarrow> False | Some v \<Rightarrow> v \<noteq> [])"

definition orStr :: "string option \<Rightarrow> string option \<Rightarrow> string option" where
  "orStr a b = (if truthyStr a then a else b)"

definition present :: "'a option \<Rightarrow> bool" where
  "present a = (case a of None \<Rightarrow> False | Some x \<Rightarrow> True)"

definition orObj :: "'a option \<Rightarrow> 'a option \<Rightarrow> 'a option" where
  "orObj a b = (case a of Some x \<Rightarrow> Some x | None \<Rightarrow> b)"

text \<open>The object literal \<open>mapped\<close> built for the entry \<open>[id, f]\<close> of the external dataset.\<close>

definition mapFeature :: "string \<Rightarrow> RawFeature \<Rightarrow> FeatureData" where
  "mapFeature fid f =
     \<lparr>name = (case raw_name f of None \<Rightarrow> fid | Some n \<Rightarrow> if n \<noteq> [] then n else fid),
      description = orStr (orStr (raw_description f) (raw_summary f)) None,
      mdn_url = orStr (orStr (raw_mdn_url f) (raw_mdn_url f)) None,
      spec_url = orStr (raw_spec f) None,
      baseline = orObj (case raw_status f of None \<Rightarrow> None | Some st \<Rightarrow> rs_baseline st) None,
      support =
        (case orObj (case raw_status f of None \<Rightarrow> None | Some st \<Rightarrow> rs_support st)
                    (raw_support f) of
           Some sp \<Rightarrow> sp
         | None \<Rightarrow> noSupport),
      status = Some
        \<lparr>experimental =
           Some ((case raw_status f of None \<Rightarrow> False | Some st \<Rightarrow> rs_experimental st)
                 \<or> raw_experimental f),
         standard_track =
           Some ((case raw_status f of None \<Rightarrow> False | Some st \<Rightarrow> rs_standard_track st)
                 \<or> raw_standard_track f),
         deprecated =
           Some ((case raw_status f of None \<Rightarrow> False | Some st \<Rightarrow> rs_deprecated st)
                 \<or> raw_deprecated f)\<rparr>\<rparr>"

text \<open>
  The loop over \<open>Object.entries(this.featuresMap)\<close>. Reading \<open>f.name\<close> of a \<open>null\<close> entry
  throws; the entries stored before it stay in the cache. A falsy primitive is mapped like
  an object with none of the properties.
\<close>

fun storeFeatures ::
  "(string \<times> RawValue) list \<Rightarrow> (string \<times> FeatureData) list
     \<Rightarrow> (string \<times> FeatureData) list \<times> Error option" where
  "storeFeatures [] cache = (cache, None)"
| "storeFeatures ((fid, Nullish) # es) cache = (cache, Some TypeError)"
| "storeFeatures ((fid, FalsyPrimitive) # es) cache =
     storeFeatures es (mapSet cache fid (mapFeature fid emptyRaw))"
| "storeFeatures ((fid, Object f) # es) cache =
     storeFeatures es (mapSet cache fid (mapFeature fid f))"

text \<open>
  \<open>for (const [key, data] of Object.entries(sampleData)) this.bcdCache.set(key, data)\<close>
\<close>

definition storeSample :: "DataLoader \<Rightarrow> DataLoader" where
  "storeSample s =
     s\<lparr>bcdCache := fold (\<lambda>(key, data) cache. mapSet cache key data)
                          getSampleBCDData (bcdCache s)\<rparr>"

text \<open>
  The body of the \<open>try\<close> block, with the time \<open>done\<close> that \<open>Date.now()\<close> gives at its end.
  The result is the state the block leaves and the error it threw, if any.
\<close>

definition tryBlock :: "int \<Rightarrow> Module option \<Rightarrow> DataLoader \<Rightarrow> DataLoader \<times> Error option" where
  "tryBlock done md s =
     (case md of
        None \<Rightarrow> ((storeSample s)\<lparr>lastUpdate := done\<rparr>, None)
      | Some m \<Rightarrow>
          if present (ex_features m) \<or> present (default_export m) then
            (let s1 = s\<lparr>featuresMap :=
                           orObj (orObj (ex_features m) (Option.bind (default_export m) ex_features)) None,
                         groupsExport :=
                           orObj (orObj (ex_groups m) (Option.bind (default_export m) ex_groups)) None,
                         browsersExport :=
                           orObj (orObj (ex_browsers m) (Option.bind (default_export m) ex_browsers)) None,
                         snapshotsExport :=
                           orObj (orObj (ex_snapshots m) (Option.bind (default_export m) ex_snapshots)) None\<rparr>
             in case featuresMap s1 of
                  None \<Rightarrow> (s1\<lparr>lastUpdate := done\<rparr>, None)
                | Some fm \<Rightarrow>
                    (case storeFeatures fm (bcdCache s1) of
                       (cache, Some e) \<Rightarrow> (s1\<lparr>bcdCache := cache\<rparr>, Some e)
                     | (cache, None) \<Rightarrow> (s1\<lparr>bcdCache := cache, lastUpdate := done\<rparr>, None)))
          else ((storeSample s)\<lparr>lastUpdate := done\<rparr>, None))"

text \<open>
  \<open>loadBCDData\<close>, with the time \<open>now\<close> that \<open>Date.now()\<close> gives at the gate and the
  outcome \<open>md\<close> of the import. The result is the promise's: \<open>Inl\<close> a rejection, \<open>Inr\<close> the
  state of the loader when it resolves.
\<close>

definition loadBCDData ::
  "int \<Rightarrow> int \<Rightarrow> Module option \<Rightarrow> DataLoader \<Rightarrow> Error + DataLoader" where
  "loadBCDData now done md s =
     (if now - lastUpdate s < CACHE_TTL \<and> length (bcdCache s) > 0 then Inr s
      else
        (case tryBlock done md s of
           (s', None) \<Rightarrow> Inr s'
         | (s', Some e) \<Rightarrow> Inr (storeSample s')))"

subsection \<open>loadBaselineData and getBaselineFeatures\<close>

text \<open>
  \<open>parseInt(year)\<close> on the keys of the sample, which are strings of decimal digits. A year
  is a JavaScript number; the model has the integers.
\<close>

definition parseInt :: "string \<Rightarrow> int" where
  "parseInt s = int (foldl (\<lambda>n c. 10 * n + ((of_char c :: nat) - 48)) 0 s)"

definition loadBaselineData :: "DataLoader \<Rightarrow> DataLoader" where
  "loadBaselineData s =
     s\<lparr>baselineCache := fold (\<lambda>(y, features) cache. mapSet cache (parseInt y) features)
                               getSampleBaselineData (baselineCache s)\<rparr>"

text \<open>\<open>this.baselineCache.get(year) || []\<close>: an array is truthy, also when it is empty.\<close>

definition getBaselineFeatures :: "DataLoader \<Rightarrow> int \<Rightarrow> BaselineFeature list" where
  "getBaselineFeatures s y = (case mapGet (baselineCache s) y of Some fs \<Rightarrow> fs | None \<Rightarrow> [])"

subsection \<open>normalizeFeatureName and getFeature\<close>

text \<open>The own properties of the object literal \<open>normalizations\<close>.\<close>

definition normalizations :: "(string \<times> string) list" where
  "normalizations =
     [(''css :has()'', ''css-has-selector''),
      (''css has'', ''css-has-selector''),
      (''offscreen canvas'', ''offscreen-canvas''),
      (''web usb'', ''webusb''),
      (''fetch streaming'', ''fetch-streaming'')]"

text \<open>
  \<open>normalizations[lower] || name\<close>. The table is a plain object, so for a key that
  \<open>Object.prototype\<close> has the lookup gives that inherited member, which is truthy: the
  function then returns the member and not a string.
\<close>

datatype NormalizedName = Name string | Member ProtoMember

definition normalizeFeatureName :: "string \<Rightarrow> NormalizedName" where
  "normalizeFeatureName nm =
     (let lower = toLowerCase nm
      in case objGet normalizations lower of
           Own v \<Rightarrow> if v \<noteq> [] then Name v else Name nm
         | Inherited m \<Rightarrow> Member m
         | Undefined \<Rightarrow> Name nm)"

text \<open>
  \<open>this.bcdCache.get(key)\<close>: the keys of the cache are strings, and no object is the same
  value as a string. \<open>this.featuresMap[key]\<close> turns an object key into a string first.
\<close>

fun cacheGet :: "(string \<times> FeatureData) list \<Rightarrow> NormalizedName \<Rightarrow> FeatureData option" where
  "cacheGet cache (Name k) = mapGet cache k"
| "cacheGet cache (Member m) = None"

fun propertyKey :: "NormalizedName \<Rightarrow> string" where
  "propertyKey (Name k) = k"
| "propertyKey (Member ObjectConstructor) = ''function Object() { [native code] }''"
| "propertyKey (Member ObjectPrototype) = ''[object Object]''"
| "propertyKey (Member (ProtoFunction f)) = ''function '' @ f @ ''() { [native code] }''"

text \<open>
  What \<open>getFeature\<close> returns: a record of the cache, or the value of
  \<open>this.featuresMap[normalizedName]\<close> as it is (the cast to \<open>FeatureData\<close> changes nothing
  at run time), which is an object of the external dataset or an inherited member.
  \<open>None\<close> is \<open>undefined\<close>. The value of \<open>this.featuresMap[normalizedName]\<close> is returned
  only where the test before it found it truthy.
\<close>

datatype Found = Feature FeatureData | RawObject RawFeature | ProtoValue ProtoMember

fun truthyRaw :: "RawValue Property \<Rightarrow> bool" where
  "truthyRaw (Own Nullish) = False"
| "truthyRaw (Own FalsyPrimitive) = False"
| "truthyRaw (Own (Object f)) = True"
| "truthyRaw (Inherited m) = True"
| "truthyRaw Undefined = False"

fun foundRaw :: "RawValue Property \<Rightarrow> Found option" where
  "foundRaw (Own Nullish) = None"
| "foundRaw (Own FalsyPrimitive) = None"
| "foundRaw (Own (Object f)) = Some (RawObject f)"
| "foundRaw (Inherited m) = Some (ProtoValue m)"
| "foundRaw Undefined = None"

definition getFeature :: "DataLoader \<Rightarrow> string \<Rightarrow> Found option" where
  "getFeature s nm =
     (let normalizedName = normalizeFeatureName nm
      in if (case featuresMap s of
               None \<Rightarrow> False
             | Some fm \<Rightarrow> truthyRaw (objGet fm (propertyKey normalizedName)))
         then
           (case cacheGet (bcdCache s) normalizedName of
              Some f \<Rightarrow> Some (Feature f)
            | None \<Rightarrow>
                (case featuresMap s of
                   None \<Rightarrow> None
                 | Some fm \<Rightarrow> foundRaw (objGet fm (propertyKey normalizedName))))
         else
           (case cacheGet (bcdCache s) normalizedName of
              Some f \<Rightarrow> Some (Feature f)
            | None \<Rightarrow> map_option Feature (mapGet (bcdCache s) nm)))"

subsection \<open>getAllFeatures and findFeatures\<close>

definition getAllFeatures :: "DataLoader \<Rightarrow> FeatureData list" where
  "getAllFeatures s =
     (case featuresMap s of
        Some fm \<Rightarrow> List.map_filter (\<lambda>k. mapGet (bcdCache s) k) (map fst fm)
      | None \<Rightarrow> map snd (bcdCache s))"

record SearchResult =
  sr_id :: string
  sr_name :: string
  sr_description :: string
  sr_group :: "string option"

text \<open>
  The entries the search walks through: those of \<open>featuresMap\<close> when there is one, else
  those of the cache.
\<close>

datatype Entry = RawEntry RawValue | CacheEntry FeatureData

definition searchEntries :: "DataLoader \<Rightarrow> (string \<times> Entry) list" where
  "searchEntries s =
     (case featuresMap s of
        Some fm \<Rightarrow> map (\<lambda>(fid, r). (fid, RawEntry r)) fm
      | None \<Rightarrow> map (\<lambda>(fid, f). (fid, CacheEntry f)) (bcdCache s))"

text \<open>
  For one entry: \<open>raw\<close> is the entry when it comes from \<open>featuresMap\<close>; \<open>feature\<close> is
  \<open>this.bcdCache.get(id) || rawOrFeature\<close>, of which the name and the description are read.
\<close>

fun rawOf :: "Entry \<Rightarrow> RawFeature option" where
  "rawOf (RawEntry (Object r)) = Some r"
| "rawOf (RawEntry Nullish) = None"
| "rawOf (RawEntry FalsyPrimitive) = None"
| "rawOf (CacheEntry f) = None"

definition featureName :: "DataLoader \<Rightarrow> string \<Rightarrow> Entry \<Rightarrow> string option" where
  "featureName s fid e =
     (case mapGet (bcdCache s) fid of
        Some f \<Rightarrow> Some (name f)
      | None \<Rightarrow>
          (case e of
             CacheEntry f \<Rightarrow> Some (name f)
           | RawEntry (Object r) \<Rightarrow> raw_name r
           | RawEntry Nullish \<Rightarrow> None
           | RawEntry FalsyPrimitive \<Rightarrow> None))"

definition featureDescription :: "DataLoader \<Rightarrow> string \<Rightarrow> Entry \<Rightarrow> string option" where
  "featureDescription s fid e =
     (case mapGet (bcdCache s) fid of
        Some f \<Rightarrow> description f
      | None \<Rightarrow>
          (case e of
             CacheEntry f \<Rightarrow> description f
           | RawEntry (Object r) \<Rightarrow> raw_description r
           | RawEntry Nullish \<Rightarrow> None
           | RawEntry FalsyPrimitive \<Rightarrow> None))"

definition resultOf :: "DataLoader \<Rightarrow> string \<Rightarrow> Entry \<Rightarrow> SearchResult" where
  "resultOf s fid e =
     \<lparr>sr_id = fid,
      sr_name =
        (case orStr (orStr (featureName s fid e) (Option.bind (rawOf e) raw_name)) (Some fid) of
           Some n \<Rightarrow> n | None \<Rightarrow> []),
      sr_description =
        (case orStr (orStr (featureDescription s fid e) (Option.bind (rawOf e) raw_description))
                    (Some []) of
           Some d \<Rightarrow> d | None \<Rightarrow> []),
      sr_group = orStr (Option.bind (rawOf e) raw_group) None\<rparr>"

text \<open>
  \<open>[id, name, description, ...(raw?.compat_features || [])].filter(Boolean).join(' ').toLowerCase()\<close>
\<close>

definition hay :: "DataLoader \<Rightarrow> string \<Rightarrow> Entry \<Rightarrow> string" where
  "hay s fid e =
     toLowerCase (join (filter (\<lambda>p. p \<noteq> [])
       ([fid, sr_name (resultOf s fid e), sr_description (resultOf s fid e)]
        @ (case Option.bind (rawOf e) raw_compat_features of Some cs \<Rightarrow> cs | None \<Rightarrow> []))))"

text \<open>The loop of \<open>findFeatures\<close>, which stops as soon as \<open>results.length >= limit\<close>.\<close>

fun searchLoop ::
  "DataLoader \<Rightarrow> string \<Rightarrow> int \<Rightarrow> (string \<times> Entry) list \<Rightarrow> SearchResult list
     \<Rightarrow> SearchResult list" where
  "searchLoop s q limit [] results = results"
| "searchLoop s q limit ((fid, e) # es) results =
     (if int (length results) \<ge> limit then results
      else searchLoop s q limit es
             (if includesStr (hay s fid e) q then results @ [resultOf s fid e] else results))"

text \<open>\<open>xs.slice(0, limit)\<close>: a negative end counts from the end of the array.\<close>

definition slice0 :: "'a list \<Rightarrow> int \<Rightarrow> 'a list" where
  "slice0 xs limit =
     (if limit \<ge> 0 then take (nat limit) xs else take (length xs - nat (- limit)) xs)"

text \<open>
  \<open>findFeatures(query, limit)\<close>; a caller that passes no limit gets the default 10. The limit
  is a JavaScript number; the model has the integers.
\<close>

definition findFeatures :: "DataLoader \<Rightarrow> string \<Rightarrow> int \<Rightarrow> SearchResult list" where
  "findFeatures s query limit =
     (let q = trim (toLowerCase query)
      in if q = [] then [] else slice0 (searchLoop s q limit (searchEntries s) []) limit)"

section \<open>The statements of the specification\<close>

text \<open>
  The label of a support value in the words of the specification: the literal version
  string if it is a string, \<open>supported\<close> if it is truthy and not a string,
  \<open>not supported\<close> otherwise (\<open>false\<close> and an absent key).
\<close>

definition normalizedSupport :: "SupportValue option \<Rightarrow> string" where
  "normalizedSupport v =
     (case v of
        Some (Version x) \<Rightarrow> x
      | Some (Flag True) \<Rightarrow> ''supported''
      | Some (Flag False) \<Rightarrow> ''not supported''
      | None \<Rightarrow> ''not supported'')"

text \<open>
  The invariant of the data model: \<open>baseline.high\<close> is a parsable date when present. A date
  that parses is not the empty string and has a year.
\<close>

definition validHigh :: "(string \<Rightarrow> int option) \<Rightarrow> FeatureData \<Rightarrow> bool" where
  "validHigh fullYear f =
     (case baselineHigh f of None \<Rightarrow> True | Some h \<Rightarrow> h \<noteq> [] \<and> fullYear h \<noteq> None)"

text \<open>
  Two platforms for the examples, one in UTC and one five hours west of it. They are used
  on the date-only strings of the bundled records alone; for any other string their engine
  reports an invalid date.
\<close>

definition zoneUTC :: Platform where
  "zoneUTC = \<lparr>offsetAt = (\<lambda>d. 0), otherFormats = (\<lambda>s. None)\<rparr>"

definition zoneNewYork :: Platform where
  "zoneNewYork = \<lparr>offsetAt = (\<lambda>d. - 300), otherFormats = (\<lambda>s. None)\<rparr>"

text \<open>
  The bundled sample store: the state of a new loader after \<open>loadBCDData\<close> when
  \<open>web-features\<close> cannot be imported (lemma \<open>load_bundled\<close> below), the load ending at the
  time \<open>done\<close>.
\<close>

definition bundledStore :: "int \<Rightarrow> DataLoader" where
  "bundledStore done = newDataLoader\<lparr>bcdCache := getSampleBCDData, lastUpdate := done\<rparr>"

text \<open>
  Normalisation in the words of the specification: the input is lowercased and trimmed,
  then the alias table is applied; unmatched input passes through unchanged.
\<close>

definition normalizeSpec :: "string \<Rightarrow> string" where
  "normalizeSpec nm =
     (case map_of normalizations (trim (toLowerCase nm)) of Some v \<Rightarrow> v | None \<Rightarrow> nm)"

text \<open>
  The results of a search in the words of the specification: the records whose haystack
  contains the query, in the order of the dataset.
\<close>

definition matching :: "DataLoader \<Rightarrow> string \<Rightarrow> (string \<times> Entry) list \<Rightarrow> SearchResult list" where
  "matching s q es =
     map (\<lambda>(fid, e). resultOf s fid e) (filter (\<lambda>(fid, e). includesStr (hay s fid e) q) es)"

text \<open>
  An external dataset with a malformed entry: the first feature is an object with a name,
  the second is \<open>null\<close>.
\<close>

definition malformedModule :: Module where
  "malformedModule =
     \<lparr>ex_features = Some [(''ext-a'', Object (emptyRaw\<lparr>raw_name := Some ''External A''\<rparr>)),
                          (''ext-b'', Nullish)],
      ex_groups = None, ex_browsers = None, ex_snapshots = None, default_export = None\<rparr>"

text \<open>
  The lookup with the input as it is written: \<open>getFeature\<close> with the input itself in
  the place of the normalised name, in each of its lookups.
\<close>

definition verbatimLookup :: "DataLoader \<Rightarrow> string \<Rightarrow> Found option" where
  "verbatimLookup s nm =
     (if (case featuresMap s of
            None \<Rightarrow> False
          | Some fm \<Rightarrow> truthyRaw (objGet fm nm))
      then
        (case mapGet (bcdCache s) nm of
           Some f \<Rightarrow> Some (Feature f)
         | None \<Rightarrow>
             (case featuresMap s of
                None \<Rightarrow> None
              | Some fm \<Rightarrow> foundRaw (objGet fm nm)))
      else
        (case mapGet (bcdCache s) nm of
           Some f \<Rightarrow> Some (Feature f)
         | None \<Rightarrow> map_option Feature (mapGet (bcdCache s) nm)))"

text \<open>
  A well-formed external dataset with one feature, and the store of a new loader after
  loading it (lemma \<open>load_external\<close> below).
\<close>

definition externalModule :: Module where
  "externalModule =
     \<lparr>ex_features = Some [(''has'', Object (emptyRaw\<lparr>raw_name := Some ''CSS :has()''\<rparr>))],
      ex_groups = None, ex_browsers = None, ex_snapshots = None, default_export = None\<rparr>"

definition externalStore :: "int \<Rightarrow> DataLoader" where
  "externalStore done =
     newDataLoader
       \<lparr>bcdCache := [(''has'', mapFeature ''has'' (emptyRaw\<lparr>raw_name := Some ''CSS :has()''\<rparr>))],
        lastUpdate := done,
        featuresMap := ex_features externalModule\<rparr>"

section \<open>Verification\<close>

subsection \<open>Auxiliary facts\<close>

lemma pushRows_append:
  "pushRows a b brs rows =
     rows @ map (\<lambda>br. \<lparr>browser = br,
                        aVersion = versionLabel (supportAt (support a) br),
                        bVersion = versionLabel (supportAt (support b) br)\<rparr>) brs"
  by (induction brs arbitrary: rows) simp_all

lemma versionLabel_normalized: "versionLabel v = normalizedSupport v"
proof (cases v)
  case None
  then show ?thesis by (simp add: versionLabel_def normalizedSupport_def)
next
  case (Some x)
  then show ?thesis
    by (cases x) (simp_all add: versionLabel_def normalizedSupport_def)
qed

lemma load_bundled: "loadBCDData now done None newDataLoader = Inr (bundledStore done)"
  by (simp add: loadBCDData_def tryBlock_def storeSample_def newDataLoader_def
      bundledStore_def getSampleBCDData_def)

lemma getFeature_bundled_ids:
  "getFeature (bundledStore done) ''css-has-selector'' = Some (Feature cssHasSelector)"
  "getFeature (bundledStore done) ''offscreen-canvas'' = Some (Feature offscreenCanvas)"
  "getFeature (bundledStore done) ''webusb'' = Some (Feature webusb)"
  "getFeature (bundledStore done) ''fetch-streaming'' = Some (Feature fetchStreaming)"
  by code_simp+

lemma sample_years:
  "getFullYear platform ''2023-12-01'' = Some 2023"
  "getFullYear platform ''2022-03-01'' = Some 2022"
  "getFullYear platform ''2022-07-01'' = Some 2022"
  by (simp_all add: getFullYear_def parseDateOnly_def digitsVal_def daysInMonth_def)

lemma sample_highs:
  "baselineHigh cssHasSelector = Some ''2023-12-01''"
  "baselineHigh offscreenCanvas = Some ''2022-03-01''"
  "baselineHigh fetchStreaming = Some ''2022-07-01''"
  "baselineHigh webusb = None"
  by (simp_all add: baselineHigh_def cssHasSelector_def offscreenCanvas_def
      fetchStreaming_def webusb_def)

lemma baselineDiff_absent:
  "baselineHigh a = None \<or> baselineHigh b = None \<Longrightarrow> baselineDiff fullYear a b = None"
  by (auto simp: baselineDiff_def split: option.splits)

lemma baselineDiff_present:
  assumes "baselineHigh a = Some ha" and "baselineHigh b = Some hb"
    and "ha \<noteq> []" and "hb \<noteq> []"
    and "fullYear ha = Some ya" and "fullYear hb = Some yb"
  shows "baselineDiff fullYear a b = Some \<lparr>yearDiff = Some \<bar>ya - yb\<bar>, aFirst = (ya < yb)\<rparr>"
  using assms by (simp add: baselineDiff_def absDiff_def numLess_def)

lemma toLowerCaseChar_not_upper:
  "\<not> (65 \<le> (of_char (toLowerCaseChar c) :: nat) \<and> (of_char (toLowerCaseChar c) :: nat) \<le> 90)"
  by (auto simp: toLowerCaseChar_def Let_def)

lemma toLowerCase_no_upper:
  assumes "c \<in> set (toLowerCase nm)"
  shows "\<not> (65 \<le> (of_char c :: nat) \<and> (of_char c :: nat) \<le> 90)"
  using assms toLowerCaseChar_not_upper by (auto simp: toLowerCase_def)

lemma protoMember_lower:
  assumes "toLowerCase nm \<noteq> ''constructor''" and "toLowerCase nm \<noteq> ''__proto__''"
  shows "protoMember (toLowerCase nm) = None"
proof -
  have no: "\<And>c. c \<in> set (toLowerCase nm) \<Longrightarrow>
      \<not> (65 \<le> (of_char c :: nat) \<and> (of_char c :: nat) \<le> 90)"
    by (rule toLowerCase_no_upper)
  have "toLowerCase nm \<noteq> ''__defineGetter__''" using no [of "CHR ''G''"] by auto
  moreover have "toLowerCase nm \<noteq> ''__defineSetter__''" using no [of "CHR ''S''"] by auto
  moreover have "toLowerCase nm \<noteq> ''hasOwnProperty''" using no [of "CHR ''O''"] by auto
  moreover have "toLowerCase nm \<noteq> ''__lookupGetter__''" using no [of "CHR ''G''"] by auto
  moreover have "toLowerCase nm \<noteq> ''__lookupSetter__''" using no [of "CHR ''S''"] by auto
  moreover have "toLowerCase nm \<noteq> ''isPrototypeOf''" using no [of "CHR ''P''"] by auto
  moreover have "toLowerCase nm \<noteq> ''propertyIsEnumerable''" using no [of "CHR ''I''"] by auto
  moreover have "toLowerCase nm \<noteq> ''toString''" using no [of "CHR ''S''"] by auto
  moreover have "toLowerCase nm \<noteq> ''valueOf''" using no [of "CHR ''O''"] by auto
  moreover have "toLowerCase nm \<noteq> ''toLocaleString''" using no [of "CHR ''L''"] by auto
  ultimately show ?thesis using assms by (simp add: protoMember_def)
qed

lemma normalizations_truthy: "map_of normalizations k = Some v \<Longrightarrow> v \<noteq> []"
  by (auto simp: normalizations_def split: if_splits)

lemma sample_baselineCache:
  "baselineCache (loadBaselineData newDataLoader) =
     [(2022, snd (getSampleBaselineData ! 0)), (2023, snd (getSampleBaselineData ! 1)),
      (2024, snd (getSampleBaselineData ! 2))]"
  by (simp add: loadBaselineData_def newDataLoader_def getSampleBaselineData_def parseInt_def)

lemma searchLoop_full:
  "limit \<le> int (length results) \<Longrightarrow> searchLoop s q limit es results = results"
  by (cases es) auto

lemma matching_Cons:
  "matching s q ((fid, e) # es) =
     (if includesStr (hay s fid e) q then resultOf s fid e # matching s q es
      else matching s q es)"
  by (simp add: matching_def)

lemma take_searchLoop:
  "take (nat limit) (searchLoop s q limit es results) =
     take (nat limit) (results @ matching s q es)"
proof (induction es arbitrary: results)
  case Nil
  then show ?case by (simp add: matching_def)
next
  case (Cons x es)
  obtain fid e where x: "x = (fid, e)" by (cases x)
  show ?case
  proof (cases "limit \<le> int (length results)")
    case True
    then have "nat limit \<le> length results" by simp
    with True x show ?thesis by simp
  next
    case False
    show ?thesis
    proof (cases "includesStr (hay s fid e) q")
      case True
      have "searchLoop s q limit (x # es) results =
              searchLoop s q limit es (results @ [resultOf s fid e])"
        using False True x by simp
      moreover have "results @ matching s q (x # es) =
              (results @ [resultOf s fid e]) @ matching s q es"
        using True x by (simp add: matching_Cons)
      ultimately show ?thesis
        using Cons.IH [of "results @ [resultOf s fid e]"] by simp
    next
      case nomatch: False
      have "searchLoop s q limit (x # es) results = searchLoop s q limit es results"
        using False nomatch x by simp
      moreover have "matching s q (x # es) = matching s q es"
        using nomatch x by (simp add: matching_Cons)
      ultimately show ?thesis
        using Cons.IH [of results] by simp
    qed
  qed
qed

lemma findFeatures_matching:
  "findFeatures s query limit =
     (if trim (toLowerCase query) = [] then []
      else take (nat limit) (matching s (trim (toLowerCase query)) (searchEntries s)))"
proof (cases "trim (toLowerCase query) = []")
  case True
  then show ?thesis by (simp add: findFeatures_def)
next
  case False
  let ?q = "trim (toLowerCase query)"
  show ?thesis
  proof (cases "0 \<le> limit")
    case True
    with False take_searchLoop [of limit s ?q "searchEntries s" "[]"]
    show ?thesis by (simp add: findFeatures_def slice0_def)
  next
    case neg: False
    then have "searchLoop s ?q limit (searchEntries s) [] = []"
      by (simp add: searchLoop_full)
    with False neg show ?thesis by (simp add: findFeatures_def slice0_def)
  qed
qed

lemma whitespace_lower: "isWhiteSpace c \<Longrightarrow> toLowerCaseChar c = c"
  by (auto simp: isWhiteSpace_def toLowerCaseChar_def Let_def)

lemma trim_whitespace:
  assumes "list_all isWhiteSpace query"
  shows "trim (toLowerCase query) = []"
proof -
  from assms have "toLowerCase query = query"
    by (simp add: toLowerCase_def list_all_iff whitespace_lower map_idI)
  moreover from assms have "dropWhile isWhiteSpace query = []"
    by (simp add: list_all_iff)
  ultimately show ?thesis by (simp only: trim_def rev.simps dropWhile.simps)
qed

lemma subseq_matching: "subseq (map sr_id (matching s q es)) (map fst es)"
proof -
  have "map sr_id (matching s q es) = map fst (filter (\<lambda>(fid, e). includesStr (hay s fid e) q) es)"
    by (auto simp: matching_def resultOf_def)
  then show ?thesis by (simp add: subseq_map)
qed

lemma getFeature_no_featuresMap:
  "featuresMap s = None \<Longrightarrow>
     getFeature s nm =
       (case cacheGet (bcdCache s) (normalizeFeatureName nm) of
          Some f \<Rightarrow> Some (Feature f)
        | None \<Rightarrow> map_option Feature (mapGet (bcdCache s) nm))"
  by (simp add: getFeature_def)

lemma featuresMap_bundled: "featuresMap (bundledStore done) = None"
  by (simp add: bundledStore_def newDataLoader_def)

lemma normalizeFeatureName_no_alias:
  assumes "map_of normalizations (toLowerCase nm) = None"
  shows "normalizeFeatureName nm = Name nm \<or> (\<exists>m. normalizeFeatureName nm = Member m)"
  using assms by (simp add: normalizeFeatureName_def objGet_def split: option.splits)

lemma loadBCDData_gated:
  "now - lastUpdate s < CACHE_TTL \<and> bcdCache s \<noteq> [] \<Longrightarrow> loadBCDData now done md s = Inr s"
  by (simp add: loadBCDData_def)

lemma mapGet_mapSet:
  "mapGet (mapSet m k v) k' = (if k' = k then Some v else mapGet m k')"
  by (induction m) (auto simp: mapGet_def)

lemma storeSample_sample:
  "mapGet (bcdCache (storeSample s)) ''css-has-selector'' = Some cssHasSelector"
  "mapGet (bcdCache (storeSample s)) ''offscreen-canvas'' = Some offscreenCanvas"
  "mapGet (bcdCache (storeSample s)) ''webusb'' = Some webusb"
  "mapGet (bcdCache (storeSample s)) ''fetch-streaming'' = Some fetchStreaming"
  by (simp_all add: storeSample_def getSampleBCDData_def mapGet_mapSet)

lemma loadBCDData_resolves: "\<exists>s'. loadBCDData now done md s = Inr s'"
  by (simp add: loadBCDData_def split: prod.splits option.splits)

lemma loadBCDData_absent:
  assumes "\<not> (now - lastUpdate s < CACHE_TTL \<and> bcdCache s \<noteq> [])"
  shows "loadBCDData now done None s = Inr ((storeSample s)\<lparr>lastUpdate := done\<rparr>)"
  using assms by (auto simp: loadBCDData_def tryBlock_def)

lemma loadBCDData_thrown:
  assumes "\<not> (now - lastUpdate s < CACHE_TTL \<and> bcdCache s \<noteq> [])"
    and "tryBlock done md s = (s', Some e)"
  shows "loadBCDData now done md s = Inr (storeSample s')"
  using assms by (auto simp: loadBCDData_def)

lemma keys_mapSet: "set (map fst (mapSet m k v)) = insert k (set (map fst m))"
proof (induction m)
  case Nil
  then show ?case by simp
next
  case (Cons x m)
  obtain k' v' where x: "x = (k', v')" by (cases x)
  show ?case
  proof (cases "k' = k")
    case True
    with x show ?thesis by simp
  next
    case False
    with x Cons.IH show ?thesis by (simp add: insert_commute)
  qed
qed

lemma storeFeatures_keys:
  "set (map fst (fst (storeFeatures fm cache))) \<subseteq> set (map fst cache) \<union> set (map fst fm)"
proof (induction fm cache rule: storeFeatures.induct)
  case (1 cache)
  then show ?case by simp
next
  case (2 fid es cache)
  then show ?case by auto
next
  case (3 fid es cache)
  have "set (map fst (mapSet cache fid (mapFeature fid emptyRaw))) =
          insert fid (set (map fst cache))"
    by (rule keys_mapSet)
  with 3 show ?case by auto
next
  case (4 fid f es cache)
  have "set (map fst (mapSet cache fid (mapFeature fid f))) = insert fid (set (map fst cache))"
    by (rule keys_mapSet)
  with 4 show ?case by auto
qed

lemma storeFeatures_well_formed:
  "list_all (\<lambda>(fid, r). r \<noteq> Nullish) fm \<Longrightarrow> snd (storeFeatures fm cache) = None"
  by (induction fm cache rule: storeFeatures.induct) auto


lemma getFeature_verbatim_name:
  "normalizeFeatureName nm = Name nm \<Longrightarrow> getFeature s nm = verbatimLookup s nm"
  by (cases "featuresMap s"; cases "mapGet (bcdCache s) nm")
    (simp_all add: getFeature_def verbatimLookup_def Let_def)

lemma getFeature_verbatim:
  assumes "map_of normalizations (toLowerCase nm) = None"
    and "toLowerCase nm \<noteq> ''constructor''" and "toLowerCase nm \<noteq> ''__proto__''"
  shows "getFeature s nm = verbatimLookup s nm"
proof -
  from assms have "normalizeFeatureName nm = Name nm"
    by (simp add: normalizeFeatureName_def objGet_def protoMember_lower)
  then show ?thesis by (rule getFeature_verbatim_name)
qed

lemma getFeature_verbatim_no_dataset:
  assumes "featuresMap s = None" and "map_of normalizations (toLowerCase nm) = None"
  shows "getFeature s nm = verbatimLookup s nm"
    and "getFeature s nm = map_option Feature (mapGet (bcdCache s) nm)"
proof -
  from assms(2) normalizeFeatureName_no_alias [of nm]
  consider "normalizeFeatureName nm = Name nm" | m where "normalizeFeatureName nm = Member m"
    by blast
  then show "getFeature s nm = map_option Feature (mapGet (bcdCache s) nm)"
  proof cases
    case 1
    with assms(1) show ?thesis
      by (cases "mapGet (bcdCache s) nm") (simp_all add: getFeature_no_featuresMap)
  next
    case 2
    with assms(1) show ?thesis
      by (simp add: getFeature_no_featuresMap)
  qed
  moreover from assms(1) have "verbatimLookup s nm = map_option Feature (mapGet (bcdCache s) nm)"
    by (cases "mapGet (bcdCache s) nm") (simp_all add: verbatimLookup_def)
  ultimately show "getFeature s nm = verbatimLookup s nm" by simp
qed

lemma getFeature_bundled_case:
  "getFeature (bundledStore done) ''WEBUSB'' = None"
  "getFeature (bundledStore done) ''Css-Has-Selector'' = None"
  "getFeature (bundledStore done) ''webusb'' = Some (Feature webusb)"
  "getFeature (bundledStore done) ''css-has-selector'' = Some (Feature cssHasSelector)"
  by code_simp+

lemma getFeature_external_case:
  "getFeature (externalStore done) ''HAS'' = None"
  "getFeature (externalStore done) ''has'' =
     Some (Feature (mapFeature ''has'' (emptyRaw\<lparr>raw_name := Some ''CSS :has()''\<rparr>)))"
  by code_simp+

subsection \<open>The comparison engine\<close>

text \<open>
  Claim C1. For two feature records \<open>a\<close> and \<open>b\<close> the comparison has no
  \<open>baselineDifference\<close> as soon as one of them lacks a baseline high date. For records of the
  data model, whose high date parses when present, it has one exactly when both have a high
  date, and then \<open>yearDiff\<close> is the absolute difference of the two years and \<open>aFirst\<close> says
  that the year of \<open>a\<close> is strictly less than that of \<open>b\<close>. On the bundled sample set,
  \<open>css-has-selector\<close> against \<open>offscreen-canvas\<close> gives \<open>yearDiff\<close> 1 and \<open>aFirst\<close>
  false, in every time zone and on every engine.
\<close>

theorem compareFeatures_baselineDifference:
  "(baselineHigh a = None \<or> baselineHigh b = None \<longrightarrow>
      baselineDifference (compareFeatures fullYear a b) = None)
   \<and> (validHigh fullYear a \<and> validHigh fullYear b \<longrightarrow>
        ((baselineDifference (compareFeatures fullYear a b) \<noteq> None) =
           (baselineHigh a \<noteq> None \<and> baselineHigh b \<noteq> None))
        \<and> (\<forall>ha hb. baselineHigh a = Some ha \<and> baselineHigh b = Some hb \<longrightarrow>
              (\<exists>ya yb. fullYear ha = Some ya \<and> fullYear hb = Some yb
                 \<and> baselineDifference (compareFeatures fullYear a b) =
                     Some \<lparr>yearDiff = Some \<bar>ya - yb\<bar>, aFirst = (ya < yb)\<rparr>)))
   \<and> getFeature (bundledStore done) ''css-has-selector'' = Some (Feature cssHasSelector)
   \<and> getFeature (bundledStore done) ''offscreen-canvas'' = Some (Feature offscreenCanvas)
   \<and> baselineDifference (compareFeatures (getFullYear platform) cssHasSelector offscreenCanvas) =
       Some \<lparr>yearDiff = Some 1, aFirst = False\<rparr>"
proof (intro conjI impI)
  assume "baselineHigh a = None \<or> baselineHigh b = None"
  then show "baselineDifference (compareFeatures fullYear a b) = None"
    by (simp add: compareFeatures_def baselineDiff_absent)
next
  assume v: "validHigh fullYear a \<and> validHigh fullYear b"
  show "(baselineDifference (compareFeatures fullYear a b) \<noteq> None) =
          (baselineHigh a \<noteq> None \<and> baselineHigh b \<noteq> None)"
    using v by (auto simp: compareFeatures_def baselineDiff_def validHigh_def Let_def
        split: option.splits)
next
  assume v: "validHigh fullYear a \<and> validHigh fullYear b"
  show "\<forall>ha hb. baselineHigh a = Some ha \<and> baselineHigh b = Some hb \<longrightarrow>
          (\<exists>ya yb. fullYear ha = Some ya \<and> fullYear hb = Some yb
             \<and> baselineDifference (compareFeatures fullYear a b) =
                 Some \<lparr>yearDiff = Some \<bar>ya - yb\<bar>, aFirst = (ya < yb)\<rparr>)"
  proof (intro allI impI)
    fix ha hb
    assume h: "baselineHigh a = Some ha \<and> baselineHigh b = Some hb"
    with v obtain ya yb where y: "fullYear ha = Some ya" "fullYear hb = Some yb"
      and ne: "ha \<noteq> []" "hb \<noteq> []"
      by (auto simp: validHigh_def)
    from h y ne have "baselineDiff fullYear a b =
        Some \<lparr>yearDiff = Some \<bar>ya - yb\<bar>, aFirst = (ya < yb)\<rparr>"
      by (simp add: baselineDiff_present)
    with y show "\<exists>ya yb. fullYear ha = Some ya \<and> fullYear hb = Some yb
             \<and> baselineDifference (compareFeatures fullYear a b) =
                 Some \<lparr>yearDiff = Some \<bar>ya - yb\<bar>, aFirst = (ya < yb)\<rparr>"
      by (simp add: compareFeatures_def)
  qed
next
  show "getFeature (bundledStore done) ''css-has-selector'' = Some (Feature cssHasSelector)"
    by (rule getFeature_bundled_ids)
next
  show "getFeature (bundledStore done) ''offscreen-canvas'' = Some (Feature offscreenCanvas)"
    by (rule getFeature_bundled_ids)
next
  have "baselineDiff (getFullYear platform) cssHasSelector offscreenCanvas =
      Some \<lparr>yearDiff = Some \<bar>2023 - 2022\<bar>, aFirst = ((2023::int) < 2022)\<rparr>"
    by (rule baselineDiff_present [OF sample_highs(1) sample_highs(2) _ _
          sample_years(1) sample_years(2)]) simp_all
  then show "baselineDifference (compareFeatures (getFullYear platform) cssHasSelector offscreenCanvas) =
       Some \<lparr>yearDiff = Some 1, aFirst = False\<rparr>"
    by (simp add: compareFeatures_def)
qed

theorem compareFeatures_baselineDifference_witness:
  "validHigh (getFullYear zoneNewYork) fetchStreaming
   \<and> validHigh (getFullYear zoneNewYork) cssHasSelector
   \<and> baselineHigh fetchStreaming = Some ''2022-07-01''
   \<and> baselineHigh cssHasSelector = Some ''2023-12-01''
   \<and> baselineDifference (compareFeatures (getFullYear zoneNewYork) fetchStreaming cssHasSelector) =
       Some \<lparr>yearDiff = Some 1, aFirst = True\<rparr>
   \<and> baselineHigh webusb = None
   \<and> baselineDifference (compareFeatures (getFullYear zoneNewYork) webusb cssHasSelector) = None"
proof -
  have v: "validHigh (getFullYear zoneNewYork) fetchStreaming
           \<and> validHigh (getFullYear zoneNewYork) cssHasSelector"
    by (simp add: validHigh_def sample_highs sample_years)
  have h: "baselineHigh fetchStreaming = Some ''2022-07-01''
           \<and> baselineHigh cssHasSelector = Some ''2023-12-01''"
    by (simp add: sample_highs)
  from compareFeatures_baselineDifference
         [of fetchStreaming cssHasSelector "getFullYear zoneNewYork" 0 zoneNewYork] v h
  have "\<exists>ya yb. getFullYear zoneNewYork ''2022-07-01'' = Some ya
          \<and> getFullYear zoneNewYork ''2023-12-01'' = Some yb
          \<and> baselineDifference (compareFeatures (getFullYear zoneNewYork) fetchStreaming cssHasSelector) =
              Some \<lparr>yearDiff = Some \<bar>ya - yb\<bar>, aFirst = (ya < yb)\<rparr>"
    by blast
  then have d: "baselineDifference (compareFeatures (getFullYear zoneNewYork) fetchStreaming cssHasSelector) =
       Some \<lparr>yearDiff = Some 1, aFirst = True\<rparr>"
    by (auto simp: sample_years)
  from compareFeatures_baselineDifference
         [of webusb cssHasSelector "getFullYear zoneNewYork" 0 zoneNewYork]
  have "baselineDifference (compareFeatures (getFullYear zoneNewYork) webusb cssHasSelector) = None"
    by (simp add: sample_highs)
  with v h d show ?thesis by (simp add: sample_highs)
qed

text \<open>
  Claim C2. For two feature records the comparison has exactly one row for each tracked
  browser, in the order chrome, edge, firefox, safari, and on each side the row has the
  version string if the support value is a string, \<open>supported\<close> if it is truthy and not a
  string, and \<open>not supported\<close> otherwise.
\<close>

theorem compareFeatures_supportDifference:
  "supportDifference (compareFeatures fullYear a b) =
     [\<lparr>browser = ''chrome'', aVersion = normalizedSupport (chrome (support a)),
        bVersion = normalizedSupport (chrome (support b))\<rparr>,
      \<lparr>browser = ''edge'', aVersion = normalizedSupport (edge (support a)),
        bVersion = normalizedSupport (edge (support b))\<rparr>,
      \<lparr>browser = ''firefox'', aVersion = normalizedSupport (firefox (support a)),
        bVersion = normalizedSupport (firefox (support b))\<rparr>,
      \<lparr>browser = ''safari'', aVersion = normalizedSupport (safari (support a)),
        bVersion = normalizedSupport (safari (support b))\<rparr>]"
  by (simp add: compareFeatures_def pushRows_append browsers_def supportAt_def
      versionLabel_normalized)

theorem compareFeatures_supportDifference_witness:
  "supportDifference (compareFeatures (getFullYear zoneUTC) webusb cssHasSelector) =
     [\<lparr>browser = ''chrome'', aVersion = ''61'', bVersion = ''105''\<rparr>,
      \<lparr>browser = ''edge'', aVersion = ''79'', bVersion = ''105''\<rparr>,
      \<lparr>browser = ''firefox'', aVersion = ''not supported'', bVersion = ''121''\<rparr>,
      \<lparr>browser = ''safari'', aVersion = ''not supported'', bVersion = ''15.4''\<rparr>]"
  using compareFeatures_supportDifference [of "getFullYear zoneUTC" webusb cssHasSelector]
  by (simp add: webusb_def cssHasSelector_def noSupport_def normalizedSupport_def)

text \<open>
  Claim C7, as stated, fails for a record without a baseline high date: comparing the bundled
  record \<open>webusb\<close> with itself gives no \<open>baselineDifference\<close>, so no \<open>yearDiff\<close>.
\<close>

theorem compareFeatures_self_counterexample:
  "baselineDifference (compareFeatures (getFullYear zoneUTC) webusb webusb) = None"
  by (simp add: compareFeatures_def baselineDiff_absent sample_highs)

text \<open>
  Claim C7, amended. Comparing a record with itself takes the same path as any comparison:
  there are four rows and in each the two versions are equal; a record without a baseline
  high date gives no \<open>baselineDifference\<close>, and a record of the data model with one gives
  \<open>yearDiff\<close> 0 and \<open>aFirst\<close> false.
\<close>

theorem compareFeatures_self:
  "list_all (\<lambda>r. aVersion r = bVersion r) (supportDifference (compareFeatures fullYear a a))
   \<and> length (supportDifference (compareFeatures fullYear a a)) = 4
   \<and> (baselineHigh a = None \<longrightarrow> baselineDifference (compareFeatures fullYear a a) = None)
   \<and> (validHigh fullYear a \<and> baselineHigh a \<noteq> None \<longrightarrow>
        baselineDifference (compareFeatures fullYear a a) =
          Some \<lparr>yearDiff = Some 0, aFirst = False\<rparr>)"
proof (intro conjI impI)
  show "list_all (\<lambda>r. aVersion r = bVersion r) (supportDifference (compareFeatures fullYear a a))"
    by (simp add: compareFeatures_def pushRows_append browsers_def)
  show "length (supportDifference (compareFeatures fullYear a a)) = 4"
    by (simp add: compareFeatures_def pushRows_append browsers_def)
next
  assume "baselineHigh a = None"
  then show "baselineDifference (compareFeatures fullYear a a) = None"
    by (simp add: compareFeatures_def baselineDiff_absent)
next
  assume "validHigh fullYear a \<and> baselineHigh a \<noteq> None"
  then obtain h y where "baselineHigh a = Some h" "h \<noteq> []" "fullYear h = Some y"
    by (auto simp: validHigh_def)
  then have "baselineDiff fullYear a a = Some \<lparr>yearDiff = Some \<bar>y - y\<bar>, aFirst = (y < y)\<rparr>"
    by (simp add: baselineDiff_present)
  then show "baselineDifference (compareFeatures fullYear a a) =
          Some \<lparr>yearDiff = Some 0, aFirst = False\<rparr>"
    by (simp add: compareFeatures_def)
qed

theorem compareFeatures_self_witness:
  "validHigh (getFullYear zoneUTC) cssHasSelector
   \<and> baselineHigh cssHasSelector \<noteq> None
   \<and> baselineDifference (compareFeatures (getFullYear zoneUTC) cssHasSelector cssHasSelector) =
       Some \<lparr>yearDiff = Some 0, aFirst = False\<rparr>
   \<and> baselineHigh webusb = None
   \<and> baselineDifference (compareFeatures (getFullYear zoneUTC) webusb webusb) = None"
proof -
  have v: "validHigh (getFullYear zoneUTC) cssHasSelector \<and> baselineHigh cssHasSelector \<noteq> None"
    by (simp add: validHigh_def sample_highs sample_years)
  have w: "baselineHigh webusb = None"
    by (simp add: sample_highs)
  from v w compareFeatures_self [of "getFullYear zoneUTC" cssHasSelector]
    compareFeatures_self [of "getFullYear zoneUTC" webusb]
  show ?thesis by simp
qed

subsection \<open>Name normalisation\<close>

text \<open>
  Claim C3, as stated, fails: the function lowercases and does not trim. The input
  \<open>" css has"\<close>, whose lowercased and trimmed form is an alias, is returned as it is; and
  \<open>"constructor"\<close>, which is no alias, is not returned as it is, since the table inherits a
  member of that name.
\<close>

theorem normalizeFeatureName_trim_counterexample:
  "trim (toLowerCase '' css has'') = ''css has''
   \<and> normalizeSpec '' css has'' = ''css-has-selector''
   \<and> normalizeFeatureName '' css has'' = Name '' css has''
   \<and> map_of normalizations (trim (toLowerCase ''constructor'')) = None
   \<and> normalizeSpec ''constructor'' = ''constructor''
   \<and> normalizeFeatureName ''constructor'' = Member ObjectConstructor"
  by code_simp

text \<open>
  Claim C3, amended. The alias table is applied to the lowercased input, which is not
  trimmed; an input whose lowercased form is neither an alias nor one of the inherited keys
  \<open>constructor\<close> and \<open>__proto__\<close> is returned unchanged. The five aliases are those of
  the specification.
\<close>

theorem normalizeFeatureName_lowercase:
  "(\<forall>v. map_of normalizations (toLowerCase nm) = Some v \<longrightarrow> normalizeFeatureName nm = Name v)
   \<and> (map_of normalizations (toLowerCase nm) = None
        \<and> toLowerCase nm \<noteq> ''constructor'' \<and> toLowerCase nm \<noteq> ''__proto__'' \<longrightarrow>
      normalizeFeatureName nm = Name nm)
   \<and> normalizeFeatureName ''CSS :has()'' = Name ''css-has-selector''
   \<and> normalizeFeatureName ''css has'' = Name ''css-has-selector''
   \<and> normalizeFeatureName ''offscreen canvas'' = Name ''offscreen-canvas''
   \<and> normalizeFeatureName ''web usb'' = Name ''webusb''
   \<and> normalizeFeatureName ''fetch streaming'' = Name ''fetch-streaming''"
proof (intro conjI allI impI)
  fix v assume "map_of normalizations (toLowerCase nm) = Some v"
  then show "normalizeFeatureName nm = Name v"
    using normalizations_truthy [of "toLowerCase nm" v]
    by (simp add: normalizeFeatureName_def objGet_def)
next
  assume "map_of normalizations (toLowerCase nm) = None
        \<and> toLowerCase nm \<noteq> ''constructor'' \<and> toLowerCase nm \<noteq> ''__proto__''"
  then show "normalizeFeatureName nm = Name nm"
    by (simp add: normalizeFeatureName_def objGet_def protoMember_lower)
qed code_simp+

theorem normalizeFeatureName_lowercase_witness:
  "map_of normalizations (toLowerCase ''Web USB'') = Some ''webusb''
   \<and> normalizeFeatureName ''Web USB'' = Name ''webusb''
   \<and> map_of normalizations (toLowerCase ''WEBUSB'') = None
   \<and> toLowerCase ''WEBUSB'' \<noteq> ''constructor'' \<and> toLowerCase ''WEBUSB'' \<noteq> ''__proto__''
   \<and> normalizeFeatureName ''WEBUSB'' = Name ''WEBUSB''"
proof -
  have a: "map_of normalizations (toLowerCase ''Web USB'') = Some ''webusb''"
    by code_simp
  have b: "map_of normalizations (toLowerCase ''WEBUSB'') = None
     \<and> toLowerCase ''WEBUSB'' \<noteq> ''constructor'' \<and> toLowerCase ''WEBUSB'' \<noteq> ''__proto__''"
    by code_simp
  from a b normalizeFeatureName_lowercase [of "''Web USB''"]
    normalizeFeatureName_lowercase [of "''WEBUSB''"]
  show ?thesis by blast
qed

subsection \<open>Baseline years\<close>

text \<open>
  Claim C8. \<open>getBaselineFeatures\<close> returns the list stored under exactly the year asked
  for, and the empty list when the year has no entry. On the bundled sample data the year
  2024 has exactly one entry, for \<open>css-has-selector\<close>, the year 1999 and every year other
  than 2022, 2023 and 2024 has none, and every entry returned for a year is of that year.
\<close>

theorem getBaselineFeatures_exact:
  "getBaselineFeatures (loadBaselineData newDataLoader) 2024 =
     [\<lparr>bf_name = ''css-has-selector'', bf_year = 2024, bf_quarter = Some ''Q1'',
       bf_description = Some ''CSS :has() pseudo-class selector'', bf_mdn_url = None\<rparr>]
   \<and> getBaselineFeatures (loadBaselineData newDataLoader) 1999 = []
   \<and> (y \<noteq> 2022 \<and> y \<noteq> 2023 \<and> y \<noteq> 2024 \<longrightarrow>
        getBaselineFeatures (loadBaselineData newDataLoader) y = [])
   \<and> list_all (\<lambda>e. bf_year e = y) (getBaselineFeatures (loadBaselineData newDataLoader) y)
   \<and> (mapGet (baselineCache s) y = None \<longrightarrow> getBaselineFeatures s y = [])
   \<and> (\<forall>fs. mapGet (baselineCache s) y = Some fs \<longrightarrow> getBaselineFeatures s y = fs)"
  by (simp add: getBaselineFeatures_def sample_baselineCache mapGet_def
      getSampleBaselineData_def)

theorem getBaselineFeatures_exact_witness:
  "getBaselineFeatures (loadBaselineData newDataLoader) 2025 = []
   \<and> mapGet (baselineCache newDataLoader) 2024 = None
   \<and> getBaselineFeatures newDataLoader 2024 = []
   \<and> mapGet (baselineCache (loadBaselineData newDataLoader)) 2023 =
       Some [\<lparr>bf_name = ''css-has-selector'', bf_year = 2023, bf_quarter = Some ''Q4'',
              bf_description = Some ''CSS :has() pseudo-class selector'', bf_mdn_url = None\<rparr>]
   \<and> getBaselineFeatures (loadBaselineData newDataLoader) 2023 =
       [\<lparr>bf_name = ''css-has-selector'', bf_year = 2023, bf_quarter = Some ''Q4'',
         bf_description = Some ''CSS :has() pseudo-class selector'', bf_mdn_url = None\<rparr>]"
proof -
  have a: "mapGet (baselineCache newDataLoader) 2024 = None"
    by (simp add: mapGet_def newDataLoader_def)
  have b: "mapGet (baselineCache (loadBaselineData newDataLoader)) 2023 =
       Some [\<lparr>bf_name = ''css-has-selector'', bf_year = 2023, bf_quarter = Some ''Q4'',
              bf_description = Some ''CSS :has() pseudo-class selector'', bf_mdn_url = None\<rparr>]"
    by (simp add: sample_baselineCache mapGet_def getSampleBaselineData_def)
  from a b getBaselineFeatures_exact [of 2025 newDataLoader]
    getBaselineFeatures_exact [of 2024 newDataLoader]
    getBaselineFeatures_exact [of 2023 "loadBaselineData newDataLoader"]
  show ?thesis by simp
qed

subsection \<open>Search\<close>

text \<open>
  Claim C9. A search with a positive limit returns at most that many results; the results
  are the first ones, up to the limit, of the matching records in the order of the dataset,
  so their ids are a subsequence of the ids of the dataset; the empty query and a query of
  white space only return the empty list.
\<close>

theorem findFeatures_limit_order:
  "(0 < limit \<longrightarrow> int (length (findFeatures s query limit)) \<le> limit)
   \<and> subseq (map sr_id (findFeatures s query limit)) (map fst (searchEntries s))
   \<and> (trim (toLowerCase query) \<noteq> [] \<longrightarrow>
        findFeatures s query limit =
          take (nat limit) (matching s (trim (toLowerCase query)) (searchEntries s)))
   \<and> findFeatures s [] limit = []
   \<and> findFeatures s ''   '' limit = []
   \<and> (list_all isWhiteSpace query \<longrightarrow> findFeatures s query limit = [])"
proof (intro conjI impI)
  assume pos: "0 < limit"
  have "length (take (nat limit) (matching s (trim (toLowerCase query)) (searchEntries s)))
          \<le> nat limit"
    by simp
  with pos have "int (length (take (nat limit)
          (matching s (trim (toLowerCase query)) (searchEntries s)))) \<le> limit"
    by linarith
  with pos show "int (length (findFeatures s query limit)) \<le> limit"
    by (simp add: findFeatures_matching)
next
  have "subseq (take (nat limit) (map sr_id (matching s (trim (toLowerCase query)) (searchEntries s))))
          (map sr_id (matching s (trim (toLowerCase query)) (searchEntries s)))"
    by (metis append_take_drop_id prefix_imp_subseq prefixI)
  then have "subseq (map sr_id (take (nat limit) (matching s (trim (toLowerCase query)) (searchEntries s))))
          (map fst (searchEntries s))"
    using subseq_matching [of s "trim (toLowerCase query)" "searchEntries s"]
    by (simp add: take_map subseq_order.order_trans)
  then show "subseq (map sr_id (findFeatures s query limit)) (map fst (searchEntries s))"
    by (simp add: findFeatures_matching)
next
  assume "trim (toLowerCase query) \<noteq> []"
  then show "findFeatures s query limit =
          take (nat limit) (matching s (trim (toLowerCase query)) (searchEntries s))"
    by (simp add: findFeatures_matching)
next
  show "findFeatures s [] limit = []"
    by (simp add: findFeatures_def toLowerCase_def trim_def)
next
  have "list_all isWhiteSpace ''   ''" by (simp add: isWhiteSpace_def)
  then have "trim (toLowerCase ''   '') = []" by (rule trim_whitespace)
  then show "findFeatures s ''   '' limit = []"
    by (simp add: findFeatures_matching)
next
  assume "list_all isWhiteSpace query"
  then show "findFeatures s query limit = []"
    by (simp add: findFeatures_matching trim_whitespace)
qed

theorem findFeatures_limit_order_witness:
  "(0::int) < 1
   \<and> int (length (findFeatures (bundledStore 0) ''API'' 1)) \<le> 1
   \<and> trim (toLowerCase ''API'') \<noteq> []
   \<and> map sr_id (matching (bundledStore 0) (trim (toLowerCase ''API''))
               (searchEntries (bundledStore 0))) = [''webusb'', ''fetch-streaming'']
   \<and> map sr_id (findFeatures (bundledStore 0) ''API'' 1) = [''webusb'']
   \<and> list_all isWhiteSpace [CHR 0x09, CHR '' '']
   \<and> findFeatures (bundledStore 0) [CHR 0x09, CHR '' ''] 1 = []"
proof -
  have a: "trim (toLowerCase ''API'') \<noteq> []"
    by code_simp
  have m: "map sr_id (matching (bundledStore 0) (trim (toLowerCase ''API''))
               (searchEntries (bundledStore 0))) = [''webusb'', ''fetch-streaming'']"
    by code_simp
  have w: "list_all isWhiteSpace [CHR 0x09, CHR '' '']"
    by (simp add: isWhiteSpace_def)
  from a findFeatures_limit_order [of 1 "bundledStore 0" "''API''"]
  have l: "int (length (findFeatures (bundledStore 0) ''API'' 1)) \<le> 1"
    and f: "findFeatures (bundledStore 0) ''API'' 1 =
      take (nat 1) (matching (bundledStore 0) (trim (toLowerCase ''API''))
        (searchEntries (bundledStore 0)))"
    by simp_all
  from f m have i: "map sr_id (findFeatures (bundledStore 0) ''API'' 1) = [''webusb'']"
    by (simp add: take_map [symmetric])
  from w findFeatures_limit_order [of 1 "bundledStore 0" "[CHR 0x09, CHR '' '']"]
  have e: "findFeatures (bundledStore 0) [CHR 0x09, CHR '' ''] 1 = []"
    by blast
  from a m w l i e show ?thesis by simp
qed

subsection \<open>Lookup\<close>

text \<open>
  Claim C5. The bundled sample store is what a new loader holds after a load without the
  external package, and on it the names \<open>CSS :has()\<close>, \<open>css has\<close> and
  \<open>css-has-selector\<close> all give the record of \<open>css-has-selector\<close>. On a store without
  an external dataset \<open>getFeature\<close> looks the normalised name up, then the raw input, and
  returns nothing when neither is a key of the store.
\<close>

theorem getFeature_bundled_aliases:
  "loadBCDData now done None newDataLoader = Inr (bundledStore done)
   \<and> getFeature (bundledStore done) ''CSS :has()'' = Some (Feature cssHasSelector)
   \<and> getFeature (bundledStore done) ''css has'' = Some (Feature cssHasSelector)
   \<and> getFeature (bundledStore done) ''css-has-selector'' = Some (Feature cssHasSelector)
   \<and> (featuresMap s = None \<longrightarrow>
        getFeature s nm =
          (case cacheGet (bcdCache s) (normalizeFeatureName nm) of
             Some f \<Rightarrow> Some (Feature f)
           | None \<Rightarrow> map_option Feature (mapGet (bcdCache s) nm)))
   \<and> (featuresMap s = None \<and> cacheGet (bcdCache s) (normalizeFeatureName nm) = None
        \<and> mapGet (bcdCache s) nm = None \<longrightarrow>
      getFeature s nm = None)
   \<and> getFeature (bundledStore done) ''does-not-exist'' = None"
proof (intro conjI impI)
  show "loadBCDData now done None newDataLoader = Inr (bundledStore done)"
    by (rule load_bundled)
  show "getFeature (bundledStore done) ''CSS :has()'' = Some (Feature cssHasSelector)"
    by code_simp
  show "getFeature (bundledStore done) ''css has'' = Some (Feature cssHasSelector)"
    by code_simp
  show "getFeature (bundledStore done) ''css-has-selector'' = Some (Feature cssHasSelector)"
    by (rule getFeature_bundled_ids)
  show "getFeature (bundledStore done) ''does-not-exist'' = None"
    by code_simp
next
  assume "featuresMap s = None"
  then show "getFeature s nm =
          (case cacheGet (bcdCache s) (normalizeFeatureName nm) of
             Some f \<Rightarrow> Some (Feature f)
           | None \<Rightarrow> map_option Feature (mapGet (bcdCache s) nm))"
    by (rule getFeature_no_featuresMap)
next
  assume "featuresMap s = None \<and> cacheGet (bcdCache s) (normalizeFeatureName nm) = None
        \<and> mapGet (bcdCache s) nm = None"
  then show "getFeature s nm = None"
    by (simp add: getFeature_no_featuresMap)
qed

theorem getFeature_bundled_aliases_witness:
  "featuresMap (bundledStore 0) = None
   \<and> cacheGet (bcdCache (bundledStore 0)) (normalizeFeatureName ''Web USB'') = Some webusb
   \<and> getFeature (bundledStore 0) ''Web USB'' = Some (Feature webusb)
   \<and> cacheGet (bcdCache (bundledStore 0)) (normalizeFeatureName ''web-usb'') = None
   \<and> mapGet (bcdCache (bundledStore 0)) ''web-usb'' = None
   \<and> getFeature (bundledStore 0) ''web-usb'' = None"
proof -
  have a: "cacheGet (bcdCache (bundledStore 0)) (normalizeFeatureName ''Web USB'') = Some webusb"
    by code_simp
  have b: "cacheGet (bcdCache (bundledStore 0)) (normalizeFeatureName ''web-usb'') = None
           \<and> mapGet (bcdCache (bundledStore 0)) ''web-usb'' = None"
    by code_simp
  from a b featuresMap_bundled [of 0]
    getFeature_bundled_aliases [of 0 0 "bundledStore 0" "''Web USB''"]
    getFeature_bundled_aliases [of 0 0 "bundledStore 0" "''web-usb''"]
  show ?thesis by simp
qed


subsection \<open>Loading\<close>

text \<open>
  Claim C6. When the time since \<open>lastUpdate\<close> is less than the TTL of one hour and the
  cache is not empty, \<open>loadBCDData\<close> resolves with the state unchanged, whatever the
  import would give. So a second call inside the TTL window of the state that a first call
  left changes nothing, and after a load of the bundled set at the time \<open>t\<close> every call
  less than an hour after \<open>t\<close> leaves the store as it is.
\<close>

theorem loadBCDData_ttl_gate:
  "(now - lastUpdate s < CACHE_TTL \<and> bcdCache s \<noteq> [] \<longrightarrow> loadBCDData now done md s = Inr s)
   \<and> (\<forall>s1. loadBCDData now done md s = Inr s1
          \<and> now2 - lastUpdate s1 < CACHE_TTL \<and> bcdCache s1 \<noteq> [] \<longrightarrow>
        loadBCDData now2 done2 md2 s1 = Inr s1)
   \<and> (now2 - t < CACHE_TTL \<longrightarrow>
        loadBCDData now2 done2 md2 (bundledStore t) = Inr (bundledStore t))
   \<and> CACHE_TTL = 3600000"
proof (intro conjI impI allI)
  assume "now - lastUpdate s < CACHE_TTL \<and> bcdCache s \<noteq> []"
  then show "loadBCDData now done md s = Inr s"
    by (rule loadBCDData_gated)
next
  fix s1
  assume "loadBCDData now done md s = Inr s1
          \<and> now2 - lastUpdate s1 < CACHE_TTL \<and> bcdCache s1 \<noteq> []"
  then show "loadBCDData now2 done2 md2 s1 = Inr s1"
    by (simp add: loadBCDData_gated)
next
  assume "now2 - t < CACHE_TTL"
  then show "loadBCDData now2 done2 md2 (bundledStore t) = Inr (bundledStore t)"
    by (simp add: loadBCDData_gated bundledStore_def newDataLoader_def getSampleBCDData_def)
next
  show "CACHE_TTL = 3600000"
    by (simp add: CACHE_TTL_def)
qed

theorem loadBCDData_ttl_gate_witness:
  "loadBCDData 1000 1005 None newDataLoader = Inr (bundledStore 1005)
   \<and> 2000 - lastUpdate (bundledStore 1005) < CACHE_TTL
   \<and> bcdCache (bundledStore 1005) \<noteq> []
   \<and> loadBCDData 2000 2005 (Some malformedModule) (bundledStore 1005) = Inr (bundledStore 1005)
   \<and> (3601004::int) - 1005 < CACHE_TTL
   \<and> loadBCDData 3601004 3601009 None (bundledStore 1005) = Inr (bundledStore 1005)"
proof -
  have a: "loadBCDData 1000 1005 None newDataLoader = Inr (bundledStore 1005)"
    by (rule load_bundled)
  have b: "2000 - lastUpdate (bundledStore 1005) < CACHE_TTL \<and> bcdCache (bundledStore 1005) \<noteq> []"
    by (simp add: bundledStore_def newDataLoader_def getSampleBCDData_def CACHE_TTL_def)
  have c: "(3601004::int) - 1005 < CACHE_TTL"
    by (simp add: CACHE_TTL_def)
  from a b
    loadBCDData_ttl_gate [where now = 1000 and s = newDataLoader and ?done = 1005
      and md = None and ?now2.0 = 2000 and ?done2.0 = 2005 and ?md2.0 = "Some malformedModule"]
  have d: "loadBCDData 2000 2005 (Some malformedModule) (bundledStore 1005) = Inr (bundledStore 1005)"
    by blast
  from c loadBCDData_ttl_gate [where ?now2.0 = 3601004 and ?done2.0 = 3601009
      and ?md2.0 = None and t = 1005]
  have e: "loadBCDData 3601004 3601009 None (bundledStore 1005) = Inr (bundledStore 1005)"
    by blast
  from a b c d e show ?thesis by simp
qed

text \<open>
  Claim C4 says that a load never leaves a merge of external and bundled entries. The code
  does leave one when the external dataset throws part of the way through: with a dataset
  whose first feature is well formed and whose second is \<open>null\<close>, a new loader resolves
  (the error is not surfaced) with the external record \<open>ext-a\<close> and the four bundled
  records side by side in the cache, \<open>featuresMap\<close> still the external dataset and
  \<open>lastUpdate\<close> still 0; \<open>getAllFeatures\<close> then lists the external record only.
\<close>

theorem loadBCDData_partial_merge:
  "(case loadBCDData now done (Some malformedModule) newDataLoader of
      Inl e \<Rightarrow> False
    | Inr s \<Rightarrow>
        map fst (bcdCache s) =
          [''ext-a'', ''css-has-selector'', ''offscreen-canvas'', ''webusb'', ''fetch-streaming'']
        \<and> mapGet (bcdCache s) ''ext-a'' = Some (mapFeature ''ext-a'' (emptyRaw\<lparr>raw_name := Some ''External A''\<rparr>))
        \<and> mapGet (bcdCache s) ''webusb'' = Some webusb
        \<and> featuresMap s = ex_features malformedModule
        \<and> lastUpdate s = 0
        \<and> map name (getAllFeatures s) = [''External A''])"
  by (simp add: loadBCDData_def tryBlock_def newDataLoader_def malformedModule_def present_def
      orObj_def storeSample_def getSampleBCDData_def getAllFeatures_def mapGet_def
      mapFeature_def emptyRaw_def List.map_filter_def)

end
